theory Spec2Isabelle
  imports Main
begin

section \<open>Entity model (src/api/models.py)\<close>

text \<open>
  The two mapped classes of \<^verbatim>\<open>models.py\<close>. A row of table \<^verbatim>\<open>colleges\<close> has the
  columns \<^verbatim>\<open>id\<close>, \<^verbatim>\<open>name\<close>, \<^verbatim>\<open>location\<close>; a row of table \<^verbatim>\<open>students\<close> has
  \<^verbatim>\<open>id\<close>, \<^verbatim>\<open>name\<close>, \<^verbatim>\<open>age\<close>, \<^verbatim>\<open>college_id\<close>. Field names carry a prefix because
  record fields are global constants (\<open>c_id\<close> is \<^verbatim>\<open>College.id\<close>, \<open>s_college_id\<close> is
  \<^verbatim>\<open>Student.college_id\<close>, and so on). Python integers are unbounded, hence \<open>int\<close>.

  \<^verbatim>\<open>college_id = Column(Integer, ForeignKey("colleges.id"))\<close> is a nullable column
  (no \<^verbatim>\<open>nullable=False\<close>), and the ORM itself writes NULL into it (see \<open>flush\<close>
  below), so the field is an \<open>int option\<close> with \<open>None\<close> for NULL. The other columns
  are only ever written by the resolvers, from GraphQL arguments of the non-null types
  \<^verbatim>\<open>String!\<close> and \<^verbatim>\<open>Int!\<close>.
\<close>

record College =
  c_id :: int
  c_name :: string
  c_location :: string

record Student =
  s_id :: int
  s_name :: string
  s_age :: int
  s_college_id :: "int option"

section \<open>Response types (src/api/schema.py, lines 9-21)\<close>

text \<open>
  \<^verbatim>\<open>CollegeType\<close> and \<^verbatim>\<open>StudentType\<close> are strawberry types, that is dataclasses: the
  constructor stores what it is given and checks nothing, so \<open>st_college_id\<close> holds
  whatever \<^verbatim>\<open>student.college_id\<close> is, \<^verbatim>\<open>None\<close> included.
\<close>

record CollegeType =
  ct_id :: int
  ct_name :: string
  ct_location :: string

record StudentType =
  st_id :: int
  st_name :: string
  st_age :: int
  st_college_id :: "int option"

section \<open>The store and the session\<close>

text \<open>
  The relational store behind the session: the two tables, rows in insertion order,
  and for each table the last primary key the store has handed out. \<^verbatim>\<open>id\<close> is an
  Integer column with \<^verbatim>\<open>primary_key=True\<close> and the resolvers never set it, so the
  store assigns it on INSERT. Which engine does so is configured in the database
  module, which is not among the sources; the assignment is modelled as a sequence per
  table, whose next value is above every key in use.
\<close>

record store =
  colleges_tbl :: "College list"
  students_tbl :: "Student list"
  colleges_seq :: int
  students_seq :: int

text \<open>
  What the schema of \<^verbatim>\<open>models.py\<close> guarantees of every store state: \<^verbatim>\<open>id\<close> is the
  primary key of each table (no two rows share it), and every key in use has been
  handed out by the table's sequence.
\<close>

definition wf_store :: "store \<Rightarrow> bool" where
  "wf_store st \<longleftrightarrow>
     distinct (map c_id (colleges_tbl st)) \<and>
     distinct (map s_id (students_tbl st)) \<and>
     list_all (\<lambda>c. c_id c \<le> colleges_seq st) (colleges_tbl st) \<and>
     list_all (\<lambda>s. s_id s \<le> students_seq st) (students_tbl st)"

text \<open>
  The unit of work of a session: what \<^verbatim>\<open>db.add\<close>, an attribute assignment on a
  loaded object and \<^verbatim>\<open>db.delete\<close> register, to be written at the next commit. A
  loaded object is identified by its primary key.
\<close>

datatype pending =
    Insert_College string string
  | Insert_Student string int "int option"
  | Update_College int string string
  | Update_Student int string int
  | Delete_College int
  | Delete_Student int

record session =
  database :: store
  pending_ops :: "pending list"

datatype error = ValueError string | TypeError | InvalidRequestError

text \<open>
  Modelled from the spec: \<^verbatim>\<open>get_db\<close> of \<^verbatim>\<open>api/database.py\<close> (and of the legacy
  \<^verbatim>\<open>database.py\<close>), which is not among the sources. The spec's persistence gateway
  hands each resolver call a fresh session-scoped unit of work on the store
  (\<^verbatim>\<open>acquire_session() -> Session\<close>); a fresh session has nothing pending.
\<close>

definition get_db :: "store \<Rightarrow> session" where
  "get_db st = \<lparr>database = st, pending_ops = []\<rparr>"

text \<open>\<^verbatim>\<open>db.query(College).all()\<close> and \<^verbatim>\<open>db.query(Student).all()\<close>.\<close>

definition query_colleges_all :: "session \<Rightarrow> College list" where
  "query_colleges_all db = colleges_tbl (database db)"

definition query_students_all :: "session \<Rightarrow> Student list" where
  "query_students_all db = students_tbl (database db)"

text \<open>
  \<^verbatim>\<open>db.query(College).filter(College.id == id).first()\<close>: the first matching row,
  or \<^verbatim>\<open>None\<close>.
\<close>

definition query_college_first :: "session \<Rightarrow> int \<Rightarrow> College option" where
  "query_college_first db i = find (\<lambda>c. c_id c = i) (colleges_tbl (database db))"

definition query_student_first :: "session \<Rightarrow> int \<Rightarrow> Student option" where
  "query_student_first db i = find (\<lambda>s. s_id s = i) (students_tbl (database db))"

text \<open>\<^verbatim>\<open>db.add(obj)\<close>, \<^verbatim>\<open>db.delete(obj)\<close> and attribute assignment register work.\<close>

definition register :: "session \<Rightarrow> pending \<Rightarrow> session" where
  "register db p = db\<lparr>pending_ops := pending_ops db @ [p]\<rparr>"

text \<open>
  Writing one registered operation to the store.

  Deleting a College: \<^verbatim>\<open>College.students = relationship("Student",
  back_populates="college")\<close> declares a one-to-many relationship with the default
  cascade, which has no \<^verbatim>\<open>delete\<close>. For such a relationship the ORM, when the parent
  is deleted, loads the parent's children and sets their foreign key to NULL
  (\<^verbatim>\<open>UPDATE students SET college_id=NULL WHERE id=?\<close>) before it emits
  \<^verbatim>\<open>DELETE FROM colleges WHERE id=?\<close>. The column is nullable, so this succeeds.
  Student rows are never deleted by it.
\<close>

fun flush :: "pending \<Rightarrow> store \<Rightarrow> store" where
  "flush (Insert_College n l) st =
     st\<lparr>colleges_tbl := colleges_tbl st @
           [\<lparr>c_id = colleges_seq st + 1, c_name = n, c_location = l\<rparr>],
        colleges_seq := colleges_seq st + 1\<rparr>"
| "flush (Insert_Student n a c) st =
     st\<lparr>students_tbl := students_tbl st @
           [\<lparr>s_id = students_seq st + 1, s_name = n, s_age = a, s_college_id = c\<rparr>],
        students_seq := students_seq st + 1\<rparr>"
| "flush (Update_College i n l) st =
     st\<lparr>colleges_tbl :=
           map (\<lambda>c. if c_id c = i then c\<lparr>c_name := n, c_location := l\<rparr> else c)
             (colleges_tbl st)\<rparr>"
| "flush (Update_Student i n a) st =
     st\<lparr>students_tbl :=
           map (\<lambda>s. if s_id s = i then s\<lparr>s_name := n, s_age := a\<rparr> else s)
             (students_tbl st)\<rparr>"
| "flush (Delete_College i) st =
     st\<lparr>students_tbl :=
           map (\<lambda>s. if s_college_id s = Some i then s\<lparr>s_college_id := None\<rparr> else s)
             (students_tbl st),
        colleges_tbl := filter (\<lambda>c. c_id c \<noteq> i) (colleges_tbl st)\<rparr>"
| "flush (Delete_Student i) st =
     st\<lparr>students_tbl := filter (\<lambda>s. s_id s \<noteq> i) (students_tbl st)\<rparr>"

text \<open>\<^verbatim>\<open>db.commit()\<close>: write everything registered, in order, and make it durable.\<close>

definition commit :: "session \<Rightarrow> session" where
  "commit db = \<lparr>database = foldl (\<lambda>st p. flush p st) (database db) (pending_ops db),
                pending_ops = []\<rparr>"

text \<open>
  \<^verbatim>\<open>db.refresh(obj)\<close> on the object inserted by the preceding commit: the flush has
  set the object's primary key to the value the sequence handed out, and refresh
  selects the row with that key again. It raises \<^verbatim>\<open>InvalidRequestError\<close> when there
  is no such row.
\<close>

definition refresh_college :: "session \<Rightarrow> error + College" where
  "refresh_college db =
     (case query_college_first db (colleges_seq (database db)) of
        None \<Rightarrow> Inl InvalidRequestError
      | Some college \<Rightarrow> Inr college)"

definition refresh_student :: "session \<Rightarrow> error + Student" where
  "refresh_student db =
     (case query_student_first db (students_seq (database db)) of
        None \<Rightarrow> Inl InvalidRequestError
      | Some student \<Rightarrow> Inr student)"

section \<open>Resolvers of the primary tree (src/api/schema.py)\<close>

text \<open>
  A resolver takes the store as it is before the call and returns its result together
  with the store as it is after the call. A \<^verbatim>\<open>raise\<close> is the result \<open>Inl\<close>; the
  session is then dropped with its uncommitted work, and the store is the database of
  the session, which no commit has touched.
\<close>

definition to_CollegeType :: "College \<Rightarrow> CollegeType" where
  "to_CollegeType college =
     \<lparr>ct_id = c_id college, ct_name = c_name college, ct_location = c_location college\<rparr>"

definition to_StudentType :: "Student \<Rightarrow> StudentType" where
  "to_StudentType student =
     \<lparr>st_id = s_id student, st_name = s_name student, st_age = s_age student,
      st_college_id = s_college_id student\<rparr>"

definition colleges :: "store \<Rightarrow> (error + CollegeType list) \<times> store" where
  "colleges st =
     (let db = get_db st;
          cs = query_colleges_all db
      in (Inr (map to_CollegeType cs), database db))"

definition students :: "store \<Rightarrow> (error + StudentType list) \<times> store" where
  "students st =
     (let db = get_db st;
          ss = query_students_all db
      in (Inr (map to_StudentType ss), database db))"

definition create_college :: "store \<Rightarrow> string \<Rightarrow> string \<Rightarrow> (error + CollegeType) \<times> store" where
  "create_college st name location =
     (let db = get_db st;
          db = register db (Insert_College name location);
          db = commit db
      in case refresh_college db of
           Inl e \<Rightarrow> (Inl e, database db)
         | Inr college \<Rightarrow> (Inr (to_CollegeType college), database db))"

definition update_college ::
  "store \<Rightarrow> int \<Rightarrow> string \<Rightarrow> string \<Rightarrow> (error + CollegeType) \<times> store" where
  "update_college st i name location =
     (let db = get_db st
      in case query_college_first db i of
           None \<Rightarrow> (Inl (ValueError ''College not found''), database db)
         | Some college \<Rightarrow>
             (let college = college\<lparr>c_name := name, c_location := location\<rparr>;
                  db = register db (Update_College (c_id college) name location);
                  db = commit db
              in (Inr (to_CollegeType college), database db)))"

definition delete_college :: "store \<Rightarrow> int \<Rightarrow> (error + bool) \<times> store" where
  "delete_college st i =
     (let db = get_db st
      in case query_college_first db i of
           Some college \<Rightarrow>
             (let db = register db (Delete_College (c_id college));
                  db = commit db
              in (Inr True, database db))
         | None \<Rightarrow> (Inr False, database db))"

definition create_student ::
  "store \<Rightarrow> string \<Rightarrow> int \<Rightarrow> int \<Rightarrow> (error + StudentType) \<times> store" where
  "create_student st name age college_id =
     (let db = get_db st
      in case query_college_first db college_id of
           None \<Rightarrow> (Inl (ValueError ''College not found''), database db)
         | Some college \<Rightarrow>
             (let db = register db (Insert_Student name age (Some college_id));
                  db = commit db
              in case refresh_student db of
                   Inl e \<Rightarrow> (Inl e, database db)
                 | Inr student \<Rightarrow> (Inr (to_StudentType student), database db)))"

definition update_student ::
  "store \<Rightarrow> int \<Rightarrow> string \<Rightarrow> int \<Rightarrow> (error + StudentType) \<times> store" where
  "update_student st i name age =
     (let db = get_db st
      in case query_student_first db i of
           None \<Rightarrow> (Inl (ValueError ''Student not found''), database db)
         | Some student \<Rightarrow>
             (let student = student\<lparr>s_name := name, s_age := age\<rparr>;
                  db = register db (Update_Student (s_id student) name age);
                  db = commit db
              in (Inr (to_StudentType student), database db)))"

definition delete_student :: "store \<Rightarrow> int \<Rightarrow> (error + bool) \<times> store" where
  "delete_student st i =
     (let db = get_db st
      in case query_student_first db i of
           Some student \<Rightarrow>
             (let db = register db (Delete_Student (s_id student));
                  db = commit db
              in (Inr True, database db))
         | None \<Rightarrow> (Inr False, database db))"

section \<open>Resolvers of the legacy tree (src/schema.py)\<close>

text \<open>
  The legacy tree defines \<^verbatim>\<open>colleges\<close>, \<^verbatim>\<open>students\<close>, \<^verbatim>\<open>create_college\<close> and
  \<^verbatim>\<open>create_student\<close> only; it has no update and no delete mutation. It takes its
  session with \<^verbatim>\<open>db = get_db()\<close> from its own \<^verbatim>\<open>database\<close> module.

  \<^verbatim>\<open>create_college\<close> returns a new \<^verbatim>\<open>College\<close> model object, not a
  \<^verbatim>\<open>CollegeType\<close>. \<^verbatim>\<open>create_student\<close> ends with
  \<^verbatim>\<open>StudentType(id=..., name=..., college_id=...)\<close>: the field \<^verbatim>\<open>age\<close> has no
  default, so the constructor raises \<^verbatim>\<open>TypeError\<close>, after the commit. Its message
  for an absent college is \<^verbatim>\<open>"college not found"\<close>, in lower case.
\<close>

definition legacy_colleges :: "store \<Rightarrow> (error + CollegeType list) \<times> store" where
  "legacy_colleges st =
     (let db = get_db st;
          cs = query_colleges_all db
      in (Inr (map to_CollegeType cs), database db))"

definition legacy_create_college :: "store \<Rightarrow> string \<Rightarrow> string \<Rightarrow> (error + College) \<times> store" where
  "legacy_create_college st name location =
     (let db = get_db st;
          db = register db (Insert_College name location);
          db = commit db
      in case refresh_college db of
           Inl e \<Rightarrow> (Inl e, database db)
         | Inr college \<Rightarrow>
             (Inr \<lparr>c_id = c_id college, c_name = c_name college,
                   c_location = c_location college\<rparr>, database db))"

definition legacy_create_student ::
  "store \<Rightarrow> string \<Rightarrow> int \<Rightarrow> int \<Rightarrow> (error + StudentType) \<times> store" where
  "legacy_create_student st name age college_id =
     (let db = get_db st
      in case query_college_first db college_id of
           None \<Rightarrow> (Inl (ValueError ''college not found''), database db)
         | Some college \<Rightarrow>
             (let db = register db (Insert_Student name age (Some college_id));
                  db = commit db
              in case refresh_student db of
                   Inl e \<Rightarrow> (Inl e, database db)
                 | Inr student \<Rightarrow> (Inl TypeError, database db)))"

section \<open>Example stores\<close>

text \<open>
  One college and one student of it, as left by the scenario
  \<^verbatim>\<open>createCollege("Stanford", "California")\<close>, \<^verbatim>\<open>createStudent("Alice", 21, 1)\<close>
  on the empty store; and the store between the two calls.
\<close>

definition store_ex :: store where
  "store_ex =
     \<lparr>colleges_tbl = [\<lparr>c_id = 1, c_name = ''Stanford'', c_location = ''California''\<rparr>],
      students_tbl = [\<lparr>s_id = 1, s_name = ''Alice'', s_age = 21, s_college_id = Some 1\<rparr>],
      colleges_seq = 1, students_seq = 1\<rparr>"

definition store_one_college :: store where
  "store_one_college =
     \<lparr>colleges_tbl = [\<lparr>c_id = 1, c_name = ''Stanford'', c_location = ''California''\<rparr>],
      students_tbl = [], colleges_seq = 1, students_seq = 0\<rparr>"

section \<open>Auxiliary facts\<close>

lemmas session_defs = get_db_def register_def commit_def query_college_first_def
  query_student_first_def query_colleges_all_def query_students_all_def
  refresh_college_def refresh_student_def

lemma find_absent: "\<forall>x\<in>set xs. f x \<noteq> i \<Longrightarrow> find (\<lambda>x. f x = i) xs = None"
  by (simp add: find_None_iff)

lemma find_present:
  "distinct (map f xs) \<Longrightarrow> x \<in> set xs \<Longrightarrow> find (\<lambda>y. f y = f x) xs = Some x"
  by (induction xs) (auto simp: image_iff)

lemma find_SomeD: "find P xs = Some x \<Longrightarrow> P x \<and> x \<in> set xs"
  by (induction xs) (auto split: if_splits)

lemma find_fresh_append:
  "list_all (\<lambda>x. f x \<le> n) xs \<Longrightarrow> f r = n + 1 \<Longrightarrow>
   find (\<lambda>x. f x = n + (1::int)) (xs @ [r]) = Some r"
  by (induction xs) auto

lemma length_filter_distinct:
  "distinct (map f xs) \<Longrightarrow> x \<in> set xs \<Longrightarrow>
   length (filter (\<lambda>y. f y \<noteq> f x) xs) + 1 = length xs"
proof (induction xs)
  case Nil then show ?case by simp
next
  case (Cons a xs)
  show ?case
  proof (cases "a = x")
    case True
    with Cons.prems have "\<forall>y\<in>set xs. f y \<noteq> f x" by (auto simp: image_iff)
    then have "filter (\<lambda>y. f y \<noteq> f x) xs = xs" by (simp add: filter_id_conv)
    with True show ?thesis by simp
  next
    case False
    with Cons.prems have "x \<in> set xs" "f a \<noteq> f x" by (auto simp: image_iff)
    with Cons show ?thesis by simp
  qed
qed

section \<open>Properties of the primary tree\<close>

lemma delete_college_absent:
  "\<forall>c\<in>set (colleges_tbl st). c_id c \<noteq> i \<Longrightarrow> delete_college st i = (Inr False, st)"
  by (simp add: delete_college_def session_defs find_absent)

lemma delete_college_present:
  assumes "c \<in> set (colleges_tbl st)" "c_id c = i"
  shows "delete_college st i =
    (Inr True, st\<lparr>students_tbl :=
           map (\<lambda>s. if s_college_id s = Some i then s\<lparr>s_college_id := None\<rparr> else s)
             (students_tbl st),
        colleges_tbl := filter (\<lambda>c. c_id c \<noteq> i) (colleges_tbl st)\<rparr>)"
proof -
  from assms have "find (\<lambda>c. c_id c = i) (colleges_tbl st) \<noteq> None"
    by (auto simp: find_None_iff)
  then obtain d where d: "find (\<lambda>c. c_id c = i) (colleges_tbl st) = Some d" by blast
  then have "c_id d = i" by (auto dest: find_SomeD)
  with d show ?thesis by (simp add: delete_college_def session_defs)
qed

text \<open>
  Claim C1. \<^verbatim>\<open>deleteCollege(id)\<close> never raises: the result is always a boolean
  \<open>Inr r\<close>, and \<open>r\<close> says whether a College row with that id existed. When none
  existed the store is unchanged. When one existed, table \<^verbatim>\<open>colleges\<close> afterwards is
  the old table without the rows of that id, which is exactly one row fewer, and no
  row of table \<^verbatim>\<open>students\<close> is removed. A second call with the same id on the
  resulting store returns false and changes nothing.
\<close>

theorem delete_college_spec:
  assumes "wf_store st"
  shows "\<exists>r st'. delete_college st i = (Inr r, st') \<and>
           (r \<longleftrightarrow> (\<exists>c\<in>set (colleges_tbl st). c_id c = i)) \<and>
           (\<not> r \<longrightarrow> st' = st) \<and>
           (r \<longrightarrow> colleges_tbl st' = filter (\<lambda>c. c_id c \<noteq> i) (colleges_tbl st) \<and>
                 length (colleges_tbl st') + 1 = length (colleges_tbl st) \<and>
                 map s_id (students_tbl st') = map s_id (students_tbl st)) \<and>
           delete_college st' i = (Inr False, st')"
proof (cases "\<exists>c\<in>set (colleges_tbl st). c_id c = i")
  case False
  then have "delete_college st i = (Inr False, st)"
    by (simp add: delete_college_absent)
  with False show ?thesis by auto
next
  case True
  then obtain c where c: "c \<in> set (colleges_tbl st)" "c_id c = i" by blast
  define st' where "st' = st\<lparr>students_tbl :=
           map (\<lambda>s. if s_college_id s = Some i then s\<lparr>s_college_id := None\<rparr> else s)
             (students_tbl st),
        colleges_tbl := filter (\<lambda>c. c_id c \<noteq> i) (colleges_tbl st)\<rparr>"
  have r: "delete_college st i = (Inr True, st')"
    unfolding st'_def using c by (rule delete_college_present)
  have cols: "colleges_tbl st' = filter (\<lambda>c. c_id c \<noteq> i) (colleges_tbl st)"
    by (simp add: st'_def)
  from assms have "distinct (map c_id (colleges_tbl st))" by (simp add: wf_store_def)
  from length_filter_distinct [OF this c(1)] c(2) cols
  have len: "length (colleges_tbl st') + 1 = length (colleges_tbl st)" by simp
  have ids: "map s_id (students_tbl st') = map s_id (students_tbl st)"
    by (simp add: st'_def)
  have again: "delete_college st' i = (Inr False, st')"
    by (rule delete_college_absent) (simp add: cols)
  have "delete_college st i = (Inr True, st') \<and>
           (True \<longleftrightarrow> (\<exists>c\<in>set (colleges_tbl st). c_id c = i)) \<and>
           (\<not> True \<longrightarrow> st' = st) \<and>
           (True \<longrightarrow> colleges_tbl st' = filter (\<lambda>c. c_id c \<noteq> i) (colleges_tbl st) \<and>
                 length (colleges_tbl st') + 1 = length (colleges_tbl st) \<and>
                 map s_id (students_tbl st') = map s_id (students_tbl st)) \<and>
           delete_college st' i = (Inr False, st')"
    using r True cols len ids again by simp
  then show ?thesis by blast
qed

theorem delete_college_spec_witness:
  "wf_store store_ex \<and>
   delete_college store_ex 1 =
     (Inr True, store_ex\<lparr>students_tbl :=
        [\<lparr>s_id = 1, s_name = ''Alice'', s_age = 21, s_college_id = None\<rparr>], colleges_tbl := []\<rparr>) \<and>
   (\<exists>r st'. delete_college store_ex 1 = (Inr r, st') \<and>
           (r \<longleftrightarrow> (\<exists>c\<in>set (colleges_tbl store_ex). c_id c = 1)) \<and>
           (\<not> r \<longrightarrow> st' = store_ex) \<and>
           (r \<longrightarrow> colleges_tbl st' = filter (\<lambda>c. c_id c \<noteq> 1) (colleges_tbl store_ex) \<and>
                 length (colleges_tbl st') + 1 = length (colleges_tbl store_ex) \<and>
                 map s_id (students_tbl st') = map s_id (students_tbl store_ex)) \<and>
           delete_college st' 1 = (Inr False, st'))"
proof -
  have h: "wf_store store_ex" by (simp add: wf_store_def store_ex_def)
  have e: "delete_college store_ex 1 =
     (Inr True, store_ex\<lparr>students_tbl :=
        [\<lparr>s_id = 1, s_name = ''Alice'', s_age = 21, s_college_id = None\<rparr>], colleges_tbl := []\<rparr>)"
    by (simp add: delete_college_def session_defs store_ex_def)
  from h e delete_college_spec [OF h, of 1] show ?thesis by blast
qed


text \<open>
  Claim C2. When no College row has the given id, \<^verbatim>\<open>updateCollege(id, name,
  location)\<close> fails with the not-found error (\<^verbatim>\<open>ValueError("College not found")\<close>)
  for all names and locations, and the store after the call is the store before it.
\<close>

theorem update_college_not_found:
  assumes "\<forall>c\<in>set (colleges_tbl st). c_id c \<noteq> i"
  shows "update_college st i name location = (Inl (ValueError ''College not found''), st)"
  using assms by (simp add: update_college_def session_defs find_absent)

theorem update_college_not_found_witness:
  "map c_id (colleges_tbl store_ex) = [1] \<and>
   update_college store_ex 7 ''MIT'' ''Cambridge'' =
     (Inl (ValueError ''College not found''), store_ex)"
proof -
  have h: "\<forall>c\<in>set (colleges_tbl store_ex). c_id c \<noteq> 7" by (simp add: store_ex_def)
  have ids: "map c_id (colleges_tbl store_ex) = [1]" by (simp add: store_ex_def)
  from ids update_college_not_found [OF h, of "''MIT''" "''Cambridge''"] show ?thesis by simp
qed

text \<open>
  Claim C3. When no College row has id \<^verbatim>\<open>college_id\<close>, \<^verbatim>\<open>createStudent(name, age,
  college_id)\<close> fails with the not-found error for all names and ages, and the store
  after the call is the store before it: no Student row is added.
\<close>

theorem create_student_not_found:
  assumes "\<forall>c\<in>set (colleges_tbl st). c_id c \<noteq> college_id"
  shows "create_student st name age college_id =
           (Inl (ValueError ''College not found''), st)"
  using assms by (simp add: create_student_def session_defs find_absent)

theorem create_student_not_found_witness:
  "map c_id (colleges_tbl store_ex) = [1] \<and>
   create_student store_ex ''Bob'' 20 7 = (Inl (ValueError ''College not found''), store_ex)"
proof -
  have h: "\<forall>c\<in>set (colleges_tbl store_ex). c_id c \<noteq> 7" by (simp add: store_ex_def)
  have ids: "map c_id (colleges_tbl store_ex) = [1]" by (simp add: store_ex_def)
  from ids create_student_not_found [OF h, of "''Bob''" 20] show ?thesis by simp
qed

lemma create_college_result:
  assumes "wf_store st"
  shows "create_college st name location =
           (Inr \<lparr>ct_id = colleges_seq st + 1, ct_name = name, ct_location = location\<rparr>,
            st\<lparr>colleges_tbl := colleges_tbl st @
                 [\<lparr>c_id = colleges_seq st + 1, c_name = name, c_location = location\<rparr>],
               colleges_seq := colleges_seq st + 1\<rparr>)"
proof -
  from assms have "list_all (\<lambda>c. c_id c \<le> colleges_seq st) (colleges_tbl st)"
    by (simp add: wf_store_def)
  then have "find (\<lambda>c. c_id c = colleges_seq st + 1)
        (colleges_tbl st @
           [\<lparr>c_id = colleges_seq st + 1, c_name = name, c_location = location\<rparr>]) =
      Some \<lparr>c_id = colleges_seq st + 1, c_name = name, c_location = location\<rparr>"
    by (rule find_fresh_append) simp
  then show ?thesis
    by (simp add: create_college_def session_defs to_CollegeType_def)
qed

lemma create_student_result:
  assumes "wf_store st" "c \<in> set (colleges_tbl st)" "c_id c = college_id"
  shows "create_student st name age college_id =
           (Inr \<lparr>st_id = students_seq st + 1, st_name = name, st_age = age,
                  st_college_id = Some college_id\<rparr>,
            st\<lparr>students_tbl := students_tbl st @
                 [\<lparr>s_id = students_seq st + 1, s_name = name, s_age = age,
                   s_college_id = Some college_id\<rparr>],
               students_seq := students_seq st + 1\<rparr>)"
proof -
  from assms(2,3) have "find (\<lambda>c. c_id c = college_id) (colleges_tbl st) \<noteq> None"
    by (auto simp: find_None_iff)
  then obtain d where d: "find (\<lambda>c. c_id c = college_id) (colleges_tbl st) = Some d"
    by blast
  from assms(1) have "list_all (\<lambda>s. s_id s \<le> students_seq st) (students_tbl st)"
    by (simp add: wf_store_def)
  then have "find (\<lambda>s. s_id s = students_seq st + 1)
        (students_tbl st @
           [\<lparr>s_id = students_seq st + 1, s_name = name, s_age = age,
             s_college_id = Some college_id\<rparr>]) =
      Some \<lparr>s_id = students_seq st + 1, s_name = name, s_age = age,
             s_college_id = Some college_id\<rparr>"
    by (rule find_fresh_append) simp
  with d show ?thesis
    by (simp add: create_student_def session_defs to_StudentType_def)
qed

text \<open>
  Claim C5. For all names and locations, \<^verbatim>\<open>createCollege(name, location)\<close> succeeds
  with a view of the given name and location; \<^verbatim>\<open>colleges()\<close> on the resulting store
  includes that view; and its id differs from the id of every College row that was in
  the store before the call.
\<close>

theorem create_college_then_colleges:
  assumes "wf_store st"
  shows "\<exists>new_id st' views.
           create_college st name location =
             (Inr \<lparr>ct_id = new_id, ct_name = name, ct_location = location\<rparr>, st') \<and>
           colleges st' = (Inr views, st') \<and>
           \<lparr>ct_id = new_id, ct_name = name, ct_location = location\<rparr> \<in> set views \<and>
           (\<forall>c\<in>set (colleges_tbl st). c_id c \<noteq> new_id)"
proof -
  define st' where "st' = st\<lparr>colleges_tbl := colleges_tbl st @
                 [\<lparr>c_id = colleges_seq st + 1, c_name = name, c_location = location\<rparr>],
               colleges_seq := colleges_seq st + 1\<rparr>"
  have r: "create_college st name location =
      (Inr \<lparr>ct_id = colleges_seq st + 1, ct_name = name, ct_location = location\<rparr>, st')"
    unfolding st'_def using assms by (rule create_college_result)
  have q: "colleges st' = (Inr (map to_CollegeType (colleges_tbl st')), st')"
    by (simp add: colleges_def session_defs)
  have m: "\<lparr>ct_id = colleges_seq st + 1, ct_name = name, ct_location = location\<rparr>
             \<in> set (map to_CollegeType (colleges_tbl st'))"
    by (simp add: st'_def to_CollegeType_def)
  from assms have "list_all (\<lambda>c. c_id c \<le> colleges_seq st) (colleges_tbl st)"
    by (simp add: wf_store_def)
  then have f: "\<forall>c\<in>set (colleges_tbl st). c_id c \<noteq> colleges_seq st + 1"
    by (auto simp: list_all_iff)
  from r q m f show ?thesis by blast
qed

theorem create_college_then_colleges_witness:
  "wf_store store_ex \<and>
   create_college store_ex ''MIT'' ''Cambridge'' =
     (Inr \<lparr>ct_id = 2, ct_name = ''MIT'', ct_location = ''Cambridge''\<rparr>,
      store_ex\<lparr>colleges_tbl :=
          [\<lparr>c_id = 1, c_name = ''Stanford'', c_location = ''California''\<rparr>,
           \<lparr>c_id = 2, c_name = ''MIT'', c_location = ''Cambridge''\<rparr>],
        colleges_seq := 2\<rparr>) \<and>
   (\<exists>new_id st' views.
           create_college store_ex ''MIT'' ''Cambridge'' =
             (Inr \<lparr>ct_id = new_id, ct_name = ''MIT'', ct_location = ''Cambridge''\<rparr>, st') \<and>
           colleges st' = (Inr views, st') \<and>
           \<lparr>ct_id = new_id, ct_name = ''MIT'', ct_location = ''Cambridge''\<rparr> \<in> set views \<and>
           (\<forall>c\<in>set (colleges_tbl store_ex). c_id c \<noteq> new_id))"
proof -
  have h: "wf_store store_ex" by (simp add: wf_store_def store_ex_def)
  have e: "create_college store_ex ''MIT'' ''Cambridge'' =
     (Inr \<lparr>ct_id = 2, ct_name = ''MIT'', ct_location = ''Cambridge''\<rparr>,
      store_ex\<lparr>colleges_tbl :=
          [\<lparr>c_id = 1, c_name = ''Stanford'', c_location = ''California''\<rparr>,
           \<lparr>c_id = 2, c_name = ''MIT'', c_location = ''Cambridge''\<rparr>],
        colleges_seq := 2\<rparr>)"
    by (simp add: create_college_def session_defs to_CollegeType_def store_ex_def)
  from h e create_college_then_colleges [OF h, of "''MIT''" "''Cambridge''"]
  show ?thesis by blast
qed

text \<open>
  Claim C6. When the store holds a College with id \<open>C\<close>,
  \<^verbatim>\<open>createStudent(name="Alice", age=21, college_id=C)\<close> succeeds, and
  \<^verbatim>\<open>students()\<close> on the resulting store includes the view of the created student,
  with name \<^verbatim>\<open>"Alice"\<close>, age 21 and college_id \<open>C\<close>. Its id is new among the
  Student rows.
\<close>

theorem create_student_round_trip:
  assumes "wf_store st" and "c \<in> set (colleges_tbl st)" and "c_id c = C"
  shows "\<exists>new_id st' views.
           create_student st ''Alice'' 21 C =
             (Inr \<lparr>st_id = new_id, st_name = ''Alice'', st_age = 21,
                   st_college_id = Some C\<rparr>, st') \<and>
           students st' = (Inr views, st') \<and>
           \<lparr>st_id = new_id, st_name = ''Alice'', st_age = 21, st_college_id = Some C\<rparr>
             \<in> set views \<and>
           (\<forall>s\<in>set (students_tbl st). s_id s \<noteq> new_id)"
proof -
  define st' where "st' = st\<lparr>students_tbl := students_tbl st @
                 [\<lparr>s_id = students_seq st + 1, s_name = ''Alice'', s_age = 21,
                   s_college_id = Some C\<rparr>],
               students_seq := students_seq st + 1\<rparr>"
  have r: "create_student st ''Alice'' 21 C =
      (Inr \<lparr>st_id = students_seq st + 1, st_name = ''Alice'', st_age = 21,
             st_college_id = Some C\<rparr>, st')"
    unfolding st'_def using assms by (rule create_student_result)
  have q: "students st' = (Inr (map to_StudentType (students_tbl st')), st')"
    by (simp add: students_def session_defs)
  have m: "\<lparr>st_id = students_seq st + 1, st_name = ''Alice'', st_age = 21,
             st_college_id = Some C\<rparr> \<in> set (map to_StudentType (students_tbl st'))"
    by (simp add: st'_def to_StudentType_def)
  from assms(1) have "list_all (\<lambda>s. s_id s \<le> students_seq st) (students_tbl st)"
    by (simp add: wf_store_def)
  then have f: "\<forall>s\<in>set (students_tbl st). s_id s \<noteq> students_seq st + 1"
    by (auto simp: list_all_iff)
  from r q m f show ?thesis by blast
qed

theorem create_student_round_trip_witness:
  "wf_store store_one_college \<and>
   \<lparr>c_id = 1, c_name = ''Stanford'', c_location = ''California''\<rparr>
      \<in> set (colleges_tbl store_one_college) \<and>
   create_student store_one_college ''Alice'' 21 1 =
     (Inr \<lparr>st_id = 1, st_name = ''Alice'', st_age = 21, st_college_id = Some 1\<rparr>, store_ex) \<and>
   students store_ex =
     (Inr [\<lparr>st_id = 1, st_name = ''Alice'', st_age = 21, st_college_id = Some 1\<rparr>], store_ex) \<and>
   (\<exists>new_id st' views.
           create_student store_one_college ''Alice'' 21 1 =
             (Inr \<lparr>st_id = new_id, st_name = ''Alice'', st_age = 21,
                   st_college_id = Some 1\<rparr>, st') \<and>
           students st' = (Inr views, st') \<and>
           \<lparr>st_id = new_id, st_name = ''Alice'', st_age = 21, st_college_id = Some 1\<rparr>
             \<in> set views \<and>
           (\<forall>s\<in>set (students_tbl store_one_college). s_id s \<noteq> new_id))"
proof -
  have h: "wf_store store_one_college" by (simp add: wf_store_def store_one_college_def)
  have m: "\<lparr>c_id = 1, c_name = ''Stanford'', c_location = ''California''\<rparr>
      \<in> set (colleges_tbl store_one_college)" by (simp add: store_one_college_def)
  have e: "create_student store_one_college ''Alice'' 21 1 =
     (Inr \<lparr>st_id = 1, st_name = ''Alice'', st_age = 21, st_college_id = Some 1\<rparr>, store_ex)"
    by (simp add: create_student_def session_defs to_StudentType_def
          store_one_college_def store_ex_def)
  have q: "students store_ex =
     (Inr [\<lparr>st_id = 1, st_name = ''Alice'', st_age = 21, st_college_id = Some 1\<rparr>], store_ex)"
    by (simp add: students_def session_defs to_StudentType_def store_ex_def)
  from h m e q create_student_round_trip [OF h m, of 1]
  show ?thesis by simp
qed

lemma map_if_key_update:
  "distinct (map f xs) \<Longrightarrow> x \<in> set xs \<Longrightarrow> f (g x) = f x \<Longrightarrow>
   \<exists>k<length xs. xs ! k = x \<and> map (\<lambda>y. if f y = f x then g y else y) xs = xs[k := g x]"
proof (induction xs)
  case Nil then show ?case by simp
next
  case (Cons a xs)
  show ?case
  proof (cases "a = x")
    case True
    with Cons.prems have "\<forall>y\<in>set xs. f y \<noteq> f x" by (auto simp: image_iff)
    then have "map (\<lambda>y. if f y = f x then g y else y) xs = xs" by (simp add: map_idI)
    with True have "(a # xs) ! 0 = x \<and>
        map (\<lambda>y. if f y = f x then g y else y) (a # xs) = (a # xs)[0 := g x]" by simp
    then show ?thesis by blast
  next
    case False
    with Cons.prems have x: "x \<in> set xs" and ne: "f a \<noteq> f x" by (auto simp: image_iff)
    from Cons.prems have "distinct (map f xs)" by simp
    from Cons.IH [OF this x Cons.prems(3)] obtain k where
      k: "k < length xs" "xs ! k = x" "map (\<lambda>y. if f y = f x then g y else y) xs = xs[k := g x]"
      by blast
    with ne have "Suc k < length (a # xs) \<and> (a # xs) ! Suc k = x \<and>
        map (\<lambda>y. if f y = f x then g y else y) (a # xs) = (a # xs)[Suc k := g x]" by simp
    then show ?thesis by blast
  qed
qed

lemma update_college_present:
  assumes "distinct (map c_id (colleges_tbl st))" "c \<in> set (colleges_tbl st)" "c_id c = i"
  shows "update_college st i name location =
    (Inr \<lparr>ct_id = i, ct_name = name, ct_location = location\<rparr>,
     st\<lparr>colleges_tbl :=
           map (\<lambda>x. if c_id x = i then x\<lparr>c_name := name, c_location := location\<rparr> else x)
             (colleges_tbl st)\<rparr>)"
proof -
  from assms have "find (\<lambda>x. c_id x = i) (colleges_tbl st) = Some c"
    using find_present [of c_id "colleges_tbl st" c] by simp
  with assms(3) show ?thesis
    by (simp add: update_college_def session_defs to_CollegeType_def)
qed

lemma update_student_present:
  assumes "distinct (map s_id (students_tbl st))" "s \<in> set (students_tbl st)" "s_id s = i"
  shows "update_student st i name age =
    (Inr \<lparr>st_id = i, st_name = name, st_age = age, st_college_id = s_college_id s\<rparr>,
     st\<lparr>students_tbl :=
           map (\<lambda>x. if s_id x = i then x\<lparr>s_name := name, s_age := age\<rparr> else x)
             (students_tbl st)\<rparr>)"
proof -
  from assms have "find (\<lambda>x. s_id x = i) (students_tbl st) = Some s"
    using find_present [of s_id "students_tbl st" s] by simp
  with assms(3) show ?thesis
    by (simp add: update_student_def session_defs to_StudentType_def)
qed

text \<open>
  Claim C10. When the store holds a College \<open>c\<close> with the given id,
  \<^verbatim>\<open>updateCollege(id, name, location)\<close> returns a view whose id is the input id, and
  the store afterwards is the store before with one position \<open>k\<close> of table
  \<^verbatim>\<open>colleges\<close> replaced: the row \<open>c\<close> there keeps its id and gets the new name and
  location. Every other College row, every Student row and both sequences are as
  before.
\<close>

theorem update_college_frame:
  assumes "wf_store st" and "c \<in> set (colleges_tbl st)" and "c_id c = i"
  shows "\<exists>k<length (colleges_tbl st).
           colleges_tbl st ! k = c \<and>
           update_college st i name location =
             (Inr \<lparr>ct_id = i, ct_name = name, ct_location = location\<rparr>,
              st\<lparr>colleges_tbl :=
                   (colleges_tbl st)[k := \<lparr>c_id = c_id c, c_name = name,
                                           c_location = location\<rparr>]\<rparr>)"
proof -
  from assms(1) have d: "distinct (map c_id (colleges_tbl st))" by (simp add: wf_store_def)
  have "c_id (c\<lparr>c_name := name, c_location := location\<rparr>) = c_id c" by simp
  from map_if_key_update [of c_id "colleges_tbl st" c
      "\<lambda>x. x\<lparr>c_name := name, c_location := location\<rparr>", OF d assms(2) this]
  obtain k where k: "k < length (colleges_tbl st)" "colleges_tbl st ! k = c"
    "map (\<lambda>x. if c_id x = c_id c then x\<lparr>c_name := name, c_location := location\<rparr> else x)
        (colleges_tbl st) = (colleges_tbl st)[k := c\<lparr>c_name := name, c_location := location\<rparr>]"
    by blast
  have "c\<lparr>c_name := name, c_location := location\<rparr> =
          \<lparr>c_id = c_id c, c_name = name, c_location = location\<rparr>" by simp
  with k(3) assms(3) update_college_present [OF d assms(2,3), of name location]
  have "update_college st i name location =
             (Inr \<lparr>ct_id = i, ct_name = name, ct_location = location\<rparr>,
              st\<lparr>colleges_tbl :=
                   (colleges_tbl st)[k := \<lparr>c_id = c_id c, c_name = name,
                                           c_location = location\<rparr>]\<rparr>)" by simp
  with k(1,2) show ?thesis by blast
qed

theorem update_college_frame_witness:
  "wf_store store_ex \<and>
   \<lparr>c_id = 1, c_name = ''Stanford'', c_location = ''California''\<rparr>
      \<in> set (colleges_tbl store_ex) \<and>
   update_college store_ex 1 ''Stanford University'' ''California'' =
     (Inr \<lparr>ct_id = 1, ct_name = ''Stanford University'', ct_location = ''California''\<rparr>,
      store_ex\<lparr>colleges_tbl :=
        [\<lparr>c_id = 1, c_name = ''Stanford University'', c_location = ''California''\<rparr>]\<rparr>) \<and>
   (\<exists>k<length (colleges_tbl store_ex).
      colleges_tbl store_ex ! k =
        \<lparr>c_id = 1, c_name = ''Stanford'', c_location = ''California''\<rparr> \<and>
      update_college store_ex 1 ''Stanford University'' ''California'' =
        (Inr \<lparr>ct_id = 1, ct_name = ''Stanford University'', ct_location = ''California''\<rparr>,
         store_ex\<lparr>colleges_tbl :=
           (colleges_tbl store_ex)[k := \<lparr>c_id = 1, c_name = ''Stanford University'',
                                           c_location = ''California''\<rparr>]\<rparr>))"
proof -
  have h: "wf_store store_ex" by (simp add: wf_store_def store_ex_def)
  have m: "\<lparr>c_id = 1, c_name = ''Stanford'', c_location = ''California''\<rparr>
      \<in> set (colleges_tbl store_ex)" by (simp add: store_ex_def)
  have e: "update_college store_ex 1 ''Stanford University'' ''California'' =
     (Inr \<lparr>ct_id = 1, ct_name = ''Stanford University'', ct_location = ''California''\<rparr>,
      store_ex\<lparr>colleges_tbl :=
        [\<lparr>c_id = 1, c_name = ''Stanford University'', c_location = ''California''\<rparr>]\<rparr>)"
    by (simp add: update_college_def session_defs to_CollegeType_def store_ex_def)
  from update_college_frame [OF h m, of 1 "''Stanford University''" "''California''"]
  have "\<exists>k<length (colleges_tbl store_ex).
      colleges_tbl store_ex ! k =
        \<lparr>c_id = 1, c_name = ''Stanford'', c_location = ''California''\<rparr> \<and>
      update_college store_ex 1 ''Stanford University'' ''California'' =
        (Inr \<lparr>ct_id = 1, ct_name = ''Stanford University'', ct_location = ''California''\<rparr>,
         store_ex\<lparr>colleges_tbl :=
           (colleges_tbl store_ex)[k := \<lparr>c_id = 1, c_name = ''Stanford University'',
                                           c_location = ''California''\<rparr>]\<rparr>)" by simp
  with h m e show ?thesis by blast
qed

text \<open>
  Claim C7. When the store holds a Student \<open>s\<close> with the given id,
  \<^verbatim>\<open>updateStudent(id, name, age)\<close> succeeds and the store afterwards is the store
  before with one position \<open>k\<close> of table \<^verbatim>\<open>students\<close> replaced: the row \<open>s\<close> there
  keeps its id and its college_id and gets the new name and age. The call does not look
  at table \<^verbatim>\<open>colleges\<close>: whatever that table holds, even nothing, the result and the
  effect are the same, so the College the student refers to need not exist.
\<close>

theorem update_student_frame:
  assumes "wf_store st" and "s \<in> set (students_tbl st)" and "s_id s = i"
  shows "\<exists>k<length (students_tbl st).
           students_tbl st ! k = s \<and>
           update_student st i name age =
             (Inr \<lparr>st_id = i, st_name = name, st_age = age, st_college_id = s_college_id s\<rparr>,
              st\<lparr>students_tbl :=
                   (students_tbl st)[k := \<lparr>s_id = s_id s, s_name = name, s_age = age,
                                           s_college_id = s_college_id s\<rparr>]\<rparr>) \<and>
           (\<forall>cs. update_student (st\<lparr>colleges_tbl := cs\<rparr>) i name age =
             (Inr \<lparr>st_id = i, st_name = name, st_age = age, st_college_id = s_college_id s\<rparr>,
              st\<lparr>colleges_tbl := cs,
                 students_tbl :=
                   (students_tbl st)[k := \<lparr>s_id = s_id s, s_name = name, s_age = age,
                                           s_college_id = s_college_id s\<rparr>]\<rparr>))"
proof -
  from assms(1) have d: "distinct (map s_id (students_tbl st))" by (simp add: wf_store_def)
  have "s_id (s\<lparr>s_name := name, s_age := age\<rparr>) = s_id s" by simp
  from map_if_key_update [of s_id "students_tbl st" s
      "\<lambda>x. x\<lparr>s_name := name, s_age := age\<rparr>", OF d assms(2) this]
  obtain k where k: "k < length (students_tbl st)" "students_tbl st ! k = s"
    "map (\<lambda>x. if s_id x = s_id s then x\<lparr>s_name := name, s_age := age\<rparr> else x)
        (students_tbl st) = (students_tbl st)[k := s\<lparr>s_name := name, s_age := age\<rparr>]"
    by blast
  have e: "s\<lparr>s_name := name, s_age := age\<rparr> =
          \<lparr>s_id = s_id s, s_name = name, s_age = age, s_college_id = s_college_id s\<rparr>"
    by simp
  have "update_student (st\<lparr>colleges_tbl := cs\<rparr>) i name age =
             (Inr \<lparr>st_id = i, st_name = name, st_age = age, st_college_id = s_college_id s\<rparr>,
              st\<lparr>colleges_tbl := cs,
                 students_tbl :=
                   (students_tbl st)[k := \<lparr>s_id = s_id s, s_name = name, s_age = age,
                                           s_college_id = s_college_id s\<rparr>]\<rparr>)" for cs
  proof -
    have "distinct (map s_id (students_tbl (st\<lparr>colleges_tbl := cs\<rparr>)))"
      "s \<in> set (students_tbl (st\<lparr>colleges_tbl := cs\<rparr>))"
      using d assms(2) by simp_all
    from update_student_present [OF this assms(3), of name age] k(3) e assms(3)
    show ?thesis by simp
  qed
  note all = this
  from all [of "colleges_tbl st"]
  have "update_student st i name age =
             (Inr \<lparr>st_id = i, st_name = name, st_age = age, st_college_id = s_college_id s\<rparr>,
              st\<lparr>students_tbl :=
                   (students_tbl st)[k := \<lparr>s_id = s_id s, s_name = name, s_age = age,
                                           s_college_id = s_college_id s\<rparr>]\<rparr>)" by simp
  with k(1,2) all show ?thesis by blast
qed


theorem update_student_frame_witness:
  "wf_store store_ex \<and>
   \<lparr>s_id = 1, s_name = ''Alice'', s_age = 21, s_college_id = Some 1\<rparr>
      \<in> set (students_tbl store_ex) \<and>
   update_student (store_ex\<lparr>colleges_tbl := []\<rparr>) 1 ''Jorge'' 23 =
     (Inr \<lparr>st_id = 1, st_name = ''Jorge'', st_age = 23, st_college_id = Some 1\<rparr>,
      store_ex\<lparr>colleges_tbl := [],
        students_tbl :=
          [\<lparr>s_id = 1, s_name = ''Jorge'', s_age = 23, s_college_id = Some 1\<rparr>]\<rparr>) \<and>
   (\<exists>k<length (students_tbl store_ex).
      students_tbl store_ex ! k =
        \<lparr>s_id = 1, s_name = ''Alice'', s_age = 21, s_college_id = Some 1\<rparr> \<and>
      update_student store_ex 1 ''Jorge'' 23 =
        (Inr \<lparr>st_id = 1, st_name = ''Jorge'', st_age = 23, st_college_id = Some 1\<rparr>,
         store_ex\<lparr>students_tbl :=
           (students_tbl store_ex)[k := \<lparr>s_id = 1, s_name = ''Jorge'', s_age = 23,
                                           s_college_id = Some 1\<rparr>]\<rparr>) \<and>
      (\<forall>cs. update_student (store_ex\<lparr>colleges_tbl := cs\<rparr>) 1 ''Jorge'' 23 =
        (Inr \<lparr>st_id = 1, st_name = ''Jorge'', st_age = 23, st_college_id = Some 1\<rparr>,
         store_ex\<lparr>colleges_tbl := cs,
           students_tbl :=
             (students_tbl store_ex)[k := \<lparr>s_id = 1, s_name = ''Jorge'', s_age = 23,
                                             s_college_id = Some 1\<rparr>]\<rparr>)))"
proof -
  have h: "wf_store store_ex" by (simp add: wf_store_def store_ex_def)
  have m: "\<lparr>s_id = 1, s_name = ''Alice'', s_age = 21, s_college_id = Some 1\<rparr>
      \<in> set (students_tbl store_ex)" by (simp add: store_ex_def)
  have e: "update_student (store_ex\<lparr>colleges_tbl := []\<rparr>) 1 ''Jorge'' 23 =
     (Inr \<lparr>st_id = 1, st_name = ''Jorge'', st_age = 23, st_college_id = Some 1\<rparr>,
      store_ex\<lparr>colleges_tbl := [],
        students_tbl :=
          [\<lparr>s_id = 1, s_name = ''Jorge'', s_age = 23, s_college_id = Some 1\<rparr>]\<rparr>)"
    by (simp add: update_student_def session_defs to_StudentType_def store_ex_def)
  from update_student_frame [OF h m, of 1 "''Jorge''" 23]
  have "\<exists>k<length (students_tbl store_ex).
      students_tbl store_ex ! k =
        \<lparr>s_id = 1, s_name = ''Alice'', s_age = 21, s_college_id = Some 1\<rparr> \<and>
      update_student store_ex 1 ''Jorge'' 23 =
        (Inr \<lparr>st_id = 1, st_name = ''Jorge'', st_age = 23, st_college_id = Some 1\<rparr>,
         store_ex\<lparr>students_tbl :=
           (students_tbl store_ex)[k := \<lparr>s_id = 1, s_name = ''Jorge'', s_age = 23,
                                           s_college_id = Some 1\<rparr>]\<rparr>) \<and>
      (\<forall>cs. update_student (store_ex\<lparr>colleges_tbl := cs\<rparr>) 1 ''Jorge'' 23 =
        (Inr \<lparr>st_id = 1, st_name = ''Jorge'', st_age = 23, st_college_id = Some 1\<rparr>,
         store_ex\<lparr>colleges_tbl := cs,
           students_tbl :=
             (students_tbl store_ex)[k := \<lparr>s_id = 1, s_name = ''Jorge'', s_age = 23,
                                             s_college_id = Some 1\<rparr>]\<rparr>))" by simp
  with h m e show ?thesis by blast
qed

text \<open>
  Claim C9 says that after \<^verbatim>\<open>deleteCollege(C)\<close> every dependent Student row still
  has college_id \<open>C\<close>. On the store with College 1 and its student Alice the call
  returns true and Alice's row remains, but its college_id is NULL afterwards.
\<close>

theorem delete_college_dependents_counterexample:
  "students_tbl store_ex =
     [\<lparr>s_id = 1, s_name = ''Alice'', s_age = 21, s_college_id = Some 1\<rparr>] \<and>
   delete_college store_ex 1 =
     (Inr True,
      store_ex\<lparr>students_tbl :=
          [\<lparr>s_id = 1, s_name = ''Alice'', s_age = 21, s_college_id = None\<rparr>],
        colleges_tbl := []\<rparr>) \<and>
   map s_college_id (students_tbl (snd (delete_college store_ex 1))) \<noteq> [Some 1]"
  by (simp add: delete_college_def session_defs store_ex_def)

text \<open>
  Claim C9, amended. When the store holds a College with id \<open>C\<close>,
  \<^verbatim>\<open>deleteCollege(C)\<close> returns true whether or not Student rows depend on it (no
  blocking) and removes the College rows of that id. No Student row is removed (no
  cascade delete): table \<^verbatim>\<open>students\<close> keeps its length and order, every row whose
  college_id was \<open>C\<close> is the same row with college_id set to NULL, and every other
  row is unchanged.
\<close>

theorem delete_college_dependents:
  assumes "c \<in> set (colleges_tbl st)" and "c_id c = C"
  shows "\<exists>st'. delete_college st C = (Inr True, st') \<and>
           colleges_tbl st' = filter (\<lambda>x. c_id x \<noteq> C) (colleges_tbl st) \<and>
           length (students_tbl st') = length (students_tbl st) \<and>
           (\<forall>k<length (students_tbl st).
              (s_college_id (students_tbl st ! k) = Some C \<longrightarrow>
                 students_tbl st' ! k = (students_tbl st ! k)\<lparr>s_college_id := None\<rparr>) \<and>
              (s_college_id (students_tbl st ! k) \<noteq> Some C \<longrightarrow>
                 students_tbl st' ! k = students_tbl st ! k))"
proof -
  define st' where "st' = st\<lparr>students_tbl :=
           map (\<lambda>s. if s_college_id s = Some C then s\<lparr>s_college_id := None\<rparr> else s)
             (students_tbl st),
        colleges_tbl := filter (\<lambda>c. c_id c \<noteq> C) (colleges_tbl st)\<rparr>"
  have r: "delete_college st C = (Inr True, st')"
    unfolding st'_def using assms by (rule delete_college_present)
  have cols: "colleges_tbl st' = filter (\<lambda>x. c_id x \<noteq> C) (colleges_tbl st)"
    by (simp add: st'_def)
  have len: "length (students_tbl st') = length (students_tbl st)"
    by (simp add: st'_def)
  have rows: "\<forall>k<length (students_tbl st).
              (s_college_id (students_tbl st ! k) = Some C \<longrightarrow>
                 students_tbl st' ! k = (students_tbl st ! k)\<lparr>s_college_id := None\<rparr>) \<and>
              (s_college_id (students_tbl st ! k) \<noteq> Some C \<longrightarrow>
                 students_tbl st' ! k = students_tbl st ! k)"
    by (simp add: st'_def)
  from r cols len rows show ?thesis by blast
qed

theorem delete_college_dependents_witness:
  "\<lparr>c_id = 1, c_name = ''Stanford'', c_location = ''California''\<rparr>
      \<in> set (colleges_tbl store_ex) \<and>
   (\<exists>st'. delete_college store_ex 1 = (Inr True, st') \<and>
           colleges_tbl st' = filter (\<lambda>x. c_id x \<noteq> 1) (colleges_tbl store_ex) \<and>
           length (students_tbl st') = length (students_tbl store_ex) \<and>
           (\<forall>k<length (students_tbl store_ex).
              (s_college_id (students_tbl store_ex ! k) = Some 1 \<longrightarrow>
                 students_tbl st' ! k = (students_tbl store_ex ! k)\<lparr>s_college_id := None\<rparr>) \<and>
              (s_college_id (students_tbl store_ex ! k) \<noteq> Some 1 \<longrightarrow>
                 students_tbl st' ! k = students_tbl store_ex ! k)))"
proof -
  have m: "\<lparr>c_id = 1, c_name = ''Stanford'', c_location = ''California''\<rparr>
      \<in> set (colleges_tbl store_ex)" by (simp add: store_ex_def)
  from m delete_college_dependents [OF m, of 1] show ?thesis by simp
qed

section \<open>The legacy tree against the primary tree\<close>

text \<open>
  Claim C4. Corresponding resolvers of the two trees are to produce the same result
  and the same store effect. The legacy \<^verbatim>\<open>create_student\<close> does not: on the store
  with College 1 and no student, \<^verbatim>\<open>create_student("Alice", 21, 1)\<close> of the primary
  tree returns the view of the new student, while that of the legacy tree, having
  committed the same row, builds its \<^verbatim>\<open>StudentType\<close> without \<^verbatim>\<open>age\<close> and raises
  \<^verbatim>\<open>TypeError\<close>. Both leave the same store.
\<close>

theorem legacy_create_student_diverges:
  "create_student store_one_college ''Alice'' 21 1 =
     (Inr \<lparr>st_id = 1, st_name = ''Alice'', st_age = 21, st_college_id = Some 1\<rparr>, store_ex) \<and>
   legacy_create_student store_one_college ''Alice'' 21 1 = (Inl TypeError, store_ex) \<and>
   fst (legacy_create_student store_one_college ''Alice'' 21 1) \<noteq>
   fst (create_student store_one_college ''Alice'' 21 1)"
  by (simp add: create_student_def legacy_create_student_def session_defs to_StudentType_def
        store_one_college_def store_ex_def)

end
